theory Spec2Isabelle
  imports Complex_Main
begin

section \<open>JavaScript values\<close>

text \<open>
  Request bodies and gateway answers are parsed JSON. A property that is absent reads
  as \<open>Undefined\<close>. Numbers are the rationals (every finite double is one); the
  handlers only test them for truthiness.
\<close>

datatype jsval =
    Undefined
  | Null
  | JBool bool
  | JNum rat
  | JStr string
  | JArr "jsval list"
  | JObj "(string \<times> jsval) list"

text \<open>\<open>!v\<close> is \<open>\<not> truthy v\<close>.\<close>

fun truthy :: "jsval \<Rightarrow> bool" where
  "truthy Undefined = False"
| "truthy Null = False"
| "truthy (JBool b) = b"
| "truthy (JNum n) = (n \<noteq> 0)"
| "truthy (JStr s) = (s \<noteq> [])"
| "truthy (JArr xs) = True"
| "truthy (JObj kvs) = True"

text \<open>
  \<open>v?.k\<close>. The handlers read only the names \<open>event\<close>, \<open>data\<close>, \<open>reference\<close>,
  \<open>metadata\<close>, \<open>appointment_id\<close>, \<open>amount_ngn\<close>, \<open>patient_email\<close>, \<open>status\<close>,
  \<open>message\<close>, \<open>authorization_url\<close> and \<open>access_code\<close>; none of them is a built-in
  property of a string, number, boolean or array, so only an object can hold one.
\<close>

fun opt_prop :: "jsval \<Rightarrow> string \<Rightarrow> jsval" where
  "opt_prop (JObj kvs) k = (case map_of kvs k of None \<Rightarrow> Undefined | Some v \<Rightarrow> v)"
| "opt_prop v k = Undefined"

definition nullish :: "jsval \<Rightarrow> bool" where
  "nullish v = (v = Undefined \<or> v = Null)"

section \<open>Errors and responses\<close>

text \<open>
  \<open>PaymentError\<close> and \<open>DatabaseError\<close> are the two subclasses of \<open>AppError\<close>;
  \<open>JsError\<close> stands for every exception that is not an \<open>AppError\<close> (a
  \<open>TypeError\<close> of a property read on \<open>null\<close> or \<open>undefined\<close>, a rejected
  \<open>fetch\<close>).
\<close>

datatype app_error =
    PaymentError string
  | DatabaseError string
  | JsError string

text \<open>\<open>error.statusCode || 500\<close>\<close>

fun statusCode :: "app_error \<Rightarrow> nat" where
  "statusCode (PaymentError m) = 400"
| "statusCode (DatabaseError m) = 500"
| "statusCode (JsError m) = 500"

text \<open>
  \<open>v.k\<close>: a read on \<open>null\<close> or \<open>undefined\<close> throws.
\<close>

definition get_prop :: "jsval \<Rightarrow> string \<Rightarrow> app_error + jsval" where
  "get_prop v k = (if nullish v then Inl (JsError ''TypeError'') else Inr (opt_prop v k))"

text \<open>
  What a handler does with the response object: \<open>res.status(c).json(b)\<close> (and
  \<open>res.json(b)\<close> with \<open>c = 200\<close>), \<open>res.sendStatus(c)\<close>, \<open>next(error)\<close>, or an
  exception that leaves the handler uncaught, after which nothing is sent.
\<close>

datatype response =
    Json nat jsval
  | SendStatus nat
  | NextError app_error
  | Uncaught app_error

fun status_of :: "response \<Rightarrow> nat option" where
  "status_of (Json c b) = Some c"
| "status_of (SendStatus c) = Some c"
| "status_of (NextError err) = Some (statusCode err)"
| "status_of (Uncaught err) = None"

section \<open>The store\<close>

record payment =
  appointment_id :: jsval
  amount_ngn :: jsval
  provider :: string
  status :: string
  ref :: jsval

record appointment =
  appt_id :: jsval
  appt_status :: string

record store =
  payments :: "payment list"
  appointments :: "appointment list"

text \<open>
  The store is a hosted database behind a client library that is not part of the
  repository. A query answers with an \<open>error\<close> field that is either empty or carries a
  message; a query that answers with an error has changed nothing.
\<close>

datatype db_result = DbOk | DbError string

text \<open>\<open>update({ status }).eq('ref', reference)\<close> on \<open>payments\<close>\<close>

definition set_status :: "jsval \<Rightarrow> string \<Rightarrow> payment list \<Rightarrow> payment list" where
  "set_status reference st ps =
     map (\<lambda>p. if ref p = reference then p\<lparr>status := st\<rparr> else p) ps"

text \<open>\<open>update({ status: 'confirmed' }).eq('id', appointment_id)\<close> on \<open>appointments\<close>\<close>

definition confirm :: "jsval \<Rightarrow> appointment list \<Rightarrow> appointment list" where
  "confirm a xs =
     map (\<lambda>x. if appt_id x = a then x\<lparr>appt_status := ''confirmed''\<rparr> else x) xs"

section \<open>Effects\<close>

text \<open>
  Everything a handler does outside itself, in the order it does it: console output,
  store queries with their outcome, and the call to the gateway (with the reference and
  the \<open>metadata.appointment_id\<close> it sends).
\<close>

datatype effect =
    ConsoleLog string
  | ConsoleWarn string
  | ConsoleError string
  | DbInsertPayment payment db_result
  | DbUpdatePayments jsval string db_result
  | DbUpdateAppointments jsval db_result
  | GatewayInitialize jsval jsval

record world =
  db :: store
  trace :: "effect list"

definition emit :: "effect \<Rightarrow> world \<Rightarrow> world" where
  "emit x w = w\<lparr>trace := trace w @ [x]\<rparr>"

definition insert_payment :: "db_result \<Rightarrow> payment \<Rightarrow> world \<Rightarrow> world" where
  "insert_payment r row w =
     emit (DbInsertPayment row r)
       (case r of
          DbOk \<Rightarrow> w\<lparr>db := (db w)\<lparr>payments := payments (db w) @ [row]\<rparr>\<rparr>
        | DbError m \<Rightarrow> w)"

definition update_payments :: "db_result \<Rightarrow> jsval \<Rightarrow> string \<Rightarrow> world \<Rightarrow> world" where
  "update_payments r reference st w =
     emit (DbUpdatePayments reference st r)
       (case r of
          DbOk \<Rightarrow> w\<lparr>db := (db w)\<lparr>payments := set_status reference st (payments (db w))\<rparr>\<rparr>
        | DbError m \<Rightarrow> w)"

definition update_appointments :: "db_result \<Rightarrow> jsval \<Rightarrow> world \<Rightarrow> world" where
  "update_appointments r a w =
     emit (DbUpdateAppointments a r)
       (case r of
          DbOk \<Rightarrow> w\<lparr>db := (db w)\<lparr>appointments := confirm a (appointments (db w))\<rparr>\<rparr>
        | DbError m \<Rightarrow> w)"

section \<open>Configuration and environment of one request\<close>

text \<open>
  \<open>PAYSTACK_WEBHOOK_SECRET\<close> is an environment variable, absent or a string.
  \<open>hmac_sha512_hex k m\<close> is \<open>crypto.createHmac('sha512', k).update(m).digest('hex')\<close>
  and \<open>JSON_stringify\<close> is \<open>JSON.stringify\<close> on the values it turns into a string;
  both belong to the platform and stay parameters. Of \<open>undefined\<close>,
  \<open>JSON.stringify\<close> returns \<open>undefined\<close>, which \<open>update\<close> refuses with a
  \<open>TypeError\<close>. The remaining fields are what the outside answers during one request: the
  fresh uuid, the outcome of each store query, and the gateway's parsed answer
  (\<open>None\<close> when \<open>fetch\<close> or the parsing of its answer rejects).
\<close>

record env =
  PAYSTACK_WEBHOOK_SECRET :: "string option"
  hmac_sha512_hex :: "string \<Rightarrow> string \<Rightarrow> string"
  JSON_stringify :: "jsval \<Rightarrow> string"
  uuidv4 :: string
  insert_result :: db_result
  payment_update_result :: db_result
  appointment_update_result :: db_result
  gateway_response :: "jsval option"

record request =
  headers :: "(string \<times> string) list"
  body :: jsval

section \<open>The service of deepseek\_javascript\_20250903\_d1d6a6.js\<close>

text \<open>
  \<open>verifyPaystackSignature\<close> returns its verdict, or throws when a secret is set and
  the request has no body to serialise.
\<close>

definition verifyPaystackSignature ::
  "env \<Rightarrow> request \<Rightarrow> world \<Rightarrow> (app_error + bool) \<times> world" where
  "verifyPaystackSignature e req w =
     (let warn = (Inr True, emit (ConsoleWarn
            ''Paystack webhook secret not configured, skipping signature verification'') w)
      in case PAYSTACK_WEBHOOK_SECRET e of
           None \<Rightarrow> warn
         | Some k \<Rightarrow>
             if k = [] then warn
             else if body req = Undefined then (Inl (JsError ''TypeError''), w)
             else
               (let hash = hmac_sha512_hex e k (JSON_stringify e (body req))
                in (Inr (map_of (headers req) ''x-paystack-signature'' = Some hash), w)))"

text \<open>
  The \<open>catch\<close> of \<open>createPaymentRecord\<close> and of \<open>updatePaymentStatus\<close> rethrows an
  \<open>AppError\<close> as it is; the only exception raised inside their \<open>try\<close> is the
  \<open>DatabaseError\<close> of the failed query.
\<close>

definition createPaymentRecord ::
  "env \<Rightarrow> jsval \<Rightarrow> jsval \<Rightarrow> string \<Rightarrow> jsval \<Rightarrow> world \<Rightarrow> (app_error + payment) \<times> world" where
  "createPaymentRecord e a amt prov r w =
     (let row = \<lparr>appointment_id = a, amount_ngn = amt, provider = prov,
                 status = ''initiated'', ref = r\<rparr>;
          w1 = insert_payment (insert_result e) row w
      in case insert_result e of
           DbError m \<Rightarrow> (Inl (DatabaseError (''Failed to create payment record: '' @ m)), w1)
         | DbOk \<Rightarrow> (Inr row, w1))"

definition updatePaymentStatus ::
  "env \<Rightarrow> jsval \<Rightarrow> string \<Rightarrow> jsval \<Rightarrow> world \<Rightarrow> (app_error + bool) \<times> world" where
  "updatePaymentStatus e reference st a w =
     (let w1 = update_payments (payment_update_result e) reference st w
      in case payment_update_result e of
           DbError m \<Rightarrow> (Inl (DatabaseError (''Failed to update payment status: '' @ m)), w1)
         | DbOk \<Rightarrow>
             if st = ''paid'' \<and> truthy a then
               (let w2 = update_appointments (appointment_update_result e) a w1
                in case appointment_update_result e of
                     DbError m \<Rightarrow>
                       (Inr True, emit (ConsoleError ''Failed to update appointment status:'') w2)
                   | DbOk \<Rightarrow> (Inr True, w2))
             else (Inr True, w1))"

text \<open>
  \<open>app.post('/paystack/init', ...)\<close>: the body of the \<open>try\<close>, then the handler, whose
  \<open>catch\<close> hands every exception to \<open>next\<close>. The texts of the error messages keep
  their constant part.
\<close>

definition paystack_init_try :: "env \<Rightarrow> request \<Rightarrow> world \<Rightarrow> (app_error + response) \<times> world" where
  "paystack_init_try e req w =
     (if nullish (body req) then (Inl (JsError ''TypeError''), w)
      else
        (let a = opt_prop (body req) ''appointment_id'';
             amt = opt_prop (body req) ''amount_ngn''
         in if \<not> truthy a \<or> \<not> truthy amt then
              (Inl (PaymentError ''appointment_id and amount_ngn are required''), w)
            else
              (let r = JStr (''ps_ref_'' @ uuidv4 e)
               in case createPaymentRecord e a amt ''paystack'' r w of
                    (Inl err, w1) \<Rightarrow> (Inl err, w1)
                  | (Inr row, w1) \<Rightarrow>
                      (let w2 = emit (GatewayInitialize r a) w1
                       in case gateway_response e of
                            None \<Rightarrow> (Inl (JsError ''FetchError''), w2)
                          | Some json \<Rightarrow>
                              if nullish json then (Inl (JsError ''TypeError''), w2)
                              else if truthy (opt_prop json ''status'') then
                                (if nullish (opt_prop json ''data'')
                                 then (Inl (JsError ''TypeError''), w2)
                                 else
                                   (Inr (Json 200 (JObj
                                      [(''authorization_url'',
                                          opt_prop (opt_prop json ''data'') ''authorization_url''),
                                       (''access_code'',
                                          opt_prop (opt_prop json ''data'') ''access_code''),
                                       (''reference'', r)])), w2))
                              else
                                (case updatePaymentStatus e r ''failed'' Null w2 of
                                   (Inl err, w3) \<Rightarrow> (Inl err, w3)
                                 | (Inr ok, w3) \<Rightarrow>
                                     (Inl (PaymentError ''Paystack initialization failed: ''),
                                      w3))))))"

definition paystack_init :: "env \<Rightarrow> request \<Rightarrow> world \<Rightarrow> response \<times> world" where
  "paystack_init e req w =
     (case paystack_init_try e req w of
        (Inl err, w1) \<Rightarrow> (NextError err, w1)
      | (Inr res, w1) \<Rightarrow> (res, w1))"

text \<open>
  \<open>app.post('/paystack/webhook', ...)\<close>: what follows the signature check inside the
  \<open>try\<close>, then the handler, whose \<open>catch\<close> logs and answers 500 for every
  exception of the \<open>try\<close>, the one of the signature check included.
\<close>

definition paystack_webhook_try :: "env \<Rightarrow> request \<Rightarrow> world \<Rightarrow> (app_error + response) \<times> world" where
  "paystack_webhook_try e req w =
     (let event = body req
      in case get_prop event ''event'' of
           Inl err \<Rightarrow> (Inl err, w)
         | Inr ty \<Rightarrow>
             (let w1 = emit (ConsoleLog ''Paystack webhook received'') w
              in if ty = JStr ''charge.success'' then
                   (case get_prop (opt_prop event ''data'') ''reference'' of
                      Inl err \<Rightarrow> (Inl err, w1)
                    | Inr reference \<Rightarrow>
                        (let a = opt_prop (opt_prop (opt_prop event ''data'') ''metadata'')
                                   ''appointment_id''
                         in case updatePaymentStatus e reference ''paid'' a w1 of
                              (Inl err, w2) \<Rightarrow> (Inl err, w2)
                            | (Inr ok, w2) \<Rightarrow> (Inr (SendStatus 200), w2)))
                 else if ty = JStr ''charge.failed'' then
                   (case get_prop (opt_prop event ''data'') ''reference'' of
                      Inl err \<Rightarrow> (Inl err, w1)
                    | Inr reference \<Rightarrow>
                        (case updatePaymentStatus e reference ''failed'' Null w1 of
                           (Inl err, w2) \<Rightarrow> (Inl err, w2)
                         | (Inr ok, w2) \<Rightarrow> (Inr (SendStatus 200), w2)))
                 else (Inr (SendStatus 200), w1)))"

definition paystack_webhook :: "env \<Rightarrow> request \<Rightarrow> world \<Rightarrow> response \<times> world" where
  "paystack_webhook e req w =
     (let failed = (\<lambda>w'. (Json 500 (JObj [(''error'', JStr ''Webhook processing failed'')]),
                           emit (ConsoleError ''Webhook processing error:'') w'))
      in case verifyPaystackSignature e req w of
           (Inl err, w0) \<Rightarrow> failed w0
         | (Inr ok, w0) \<Rightarrow>
             if \<not> ok then
               (Json 401 (JObj [(''error'', JStr ''Invalid signature'')]),
                emit (ConsoleError ''Invalid webhook signature'') w0)
             else
               (case paystack_webhook_try e req w0 of
                  (Inl err, w1) \<Rightarrow> failed w1
                | (Inr res, w1) \<Rightarrow> (res, w1)))"

section \<open>The service of part\_000\<close>

text \<open>
  The same routes in the repository's other file. Its \<open>createPaymentRecord\<close> logs a
  failed insert and returns; its handlers answer through \<open>res\<close> themselves; it has no
  signature check and no \<open>updatePaymentStatus\<close>.
\<close>

definition part0_createPaymentRecord ::
  "env \<Rightarrow> jsval \<Rightarrow> jsval \<Rightarrow> string \<Rightarrow> jsval \<Rightarrow> world \<Rightarrow> world" where
  "part0_createPaymentRecord e a amt prov r w =
     (let row = \<lparr>appointment_id = a, amount_ngn = amt, provider = prov,
                 status = ''initiated'', ref = r\<rparr>;
          w1 = insert_payment (insert_result e) row w
      in case insert_result e of
           DbError m \<Rightarrow> emit (ConsoleError ''Supabase insert error'') w1
         | DbOk \<Rightarrow> w1)"

definition part0_paystack_init :: "env \<Rightarrow> request \<Rightarrow> world \<Rightarrow> response \<times> world" where
  "part0_paystack_init e req w =
     (if nullish (body req) then (Uncaught (JsError ''TypeError''), w)
      else
        (let a = opt_prop (body req) ''appointment_id'';
             amt = opt_prop (body req) ''amount_ngn'';
             server_error = (\<lambda>w'. (Json 500 (JObj [(''error'', JStr ''server error'')]),
                                   emit (ConsoleError ''err'') w'))
         in if \<not> truthy a \<or> \<not> truthy amt then
              (Json 400 (JObj [(''error'', JStr ''appointment_id and amount_ngn required'')]),
               w)
            else
              (let r = JStr (''ps_ref_'' @ uuidv4 e);
                   w1 = part0_createPaymentRecord e a amt ''paystack'' r w;
                   w2 = emit (GatewayInitialize r a) w1
               in case gateway_response e of
                    None \<Rightarrow> server_error w2
                  | Some json \<Rightarrow>
                      if nullish json then server_error w2
                      else if truthy (opt_prop json ''status'') then
                        (if nullish (opt_prop json ''data'') then server_error w2
                         else
                           (Json 200 (JObj
                              [(''authorization_url'',
                                  opt_prop (opt_prop json ''data'') ''authorization_url''),
                               (''access_code'',
                                  opt_prop (opt_prop json ''data'') ''access_code''),
                               (''reference'', r)]), w2))
                      else
                        (Json 500 (JObj [(''error'', JStr ''Paystack init failed''),
                                         (''details'', json)]), w2))))"

definition part0_is_success :: "jsval \<Rightarrow> bool" where
  "part0_is_success event =
     (opt_prop event ''event'' = JStr ''charge.success''
      \<or> opt_prop (opt_prop event ''data'') ''status'' = JStr ''success'')"

definition part0_paystack_webhook :: "env \<Rightarrow> request \<Rightarrow> world \<Rightarrow> response \<times> world" where
  "part0_paystack_webhook e req w =
     (let event = body req;
          w0 = emit (ConsoleLog ''Paystack webhook received'') w
      in if part0_is_success event then
           (let reference = opt_prop (opt_prop event ''data'') ''reference'';
                w1 = update_payments (payment_update_result e) reference ''paid'' w0;
                w2 = (case payment_update_result e of
                        DbError m \<Rightarrow> emit (ConsoleError ''Error updating payment'') w1
                      | DbOk \<Rightarrow> w1);
                a = opt_prop (opt_prop (opt_prop event ''data'') ''metadata'') ''appointment_id''
            in if truthy a
               then (SendStatus 200, update_appointments (appointment_update_result e) a w2)
               else (SendStatus 200, w2))
         else (SendStatus 200, w0))"

section \<open>Notions used in the statements\<close>

text \<open>What the webhook handlers read from the body of a delivery.\<close>

definition event_type :: "request \<Rightarrow> jsval" where
  "event_type req = opt_prop (body req) ''event''"

definition event_data :: "request \<Rightarrow> jsval" where
  "event_data req = opt_prop (body req) ''data''"

definition event_reference :: "request \<Rightarrow> jsval" where
  "event_reference req = opt_prop (event_data req) ''reference''"

definition event_appointment_id :: "request \<Rightarrow> jsval" where
  "event_appointment_id req =
     opt_prop (opt_prop (event_data req) ''metadata'') ''appointment_id''"

text \<open>The store queries among the effects, and a world whose trace starts empty.\<close>

fun is_query :: "effect \<Rightarrow> bool" where
  "is_query (DbInsertPayment row r) = True"
| "is_query (DbUpdatePayments reference st r) = True"
| "is_query (DbUpdateAppointments a r) = True"
| "is_query x = False"

definition fresh :: "world \<Rightarrow> world" where
  "fresh w = w\<lparr>trace := []\<rparr>"

text \<open>
  A payment row before and after a delivery: every column but \<open>status\<close> is kept, and a
  row with another reference is kept whole.
\<close>

definition frame :: "jsval \<Rightarrow> payment \<Rightarrow> payment \<Rightarrow> bool" where
  "frame reference p q =
     (appointment_id q = appointment_id p \<and> amount_ngn q = amount_ngn p
      \<and> provider q = provider p \<and> ref q = ref p
      \<and> (ref p \<noteq> reference \<longrightarrow> q = p))"

text \<open>The initiation request: its reference, the row it inserts, and when it is valid.\<close>

definition init_ref :: "env \<Rightarrow> jsval" where
  "init_ref e = JStr (''ps_ref_'' @ uuidv4 e)"

definition init_row :: "env \<Rightarrow> request \<Rightarrow> payment" where
  "init_row e req =
     \<lparr>appointment_id = opt_prop (body req) ''appointment_id'',
      amount_ngn = opt_prop (body req) ''amount_ngn'',
      provider = ''paystack'', status = ''initiated'', ref = init_ref e\<rparr>"

definition valid_init :: "request \<Rightarrow> bool" where
  "valid_init req =
     (truthy (opt_prop (body req) ''appointment_id'')
      \<and> truthy (opt_prop (body req) ''amount_ngn''))"

text \<open>The gateway reports failure: it answers with JSON whose \<open>status\<close> is falsy.\<close>

definition gateway_fails :: "env \<Rightarrow> bool" where
  "gateway_fails e =
     (case gateway_response e of
        None \<Rightarrow> False
      | Some json \<Rightarrow> \<not> nullish json \<and> \<not> truthy (opt_prop json ''status''))"

text \<open>
  The cases in which the initiation handler of part\_000 lands in its \<open>catch\<close>: the
  gateway call rejects, or a property is read on an answer that lacks it.
\<close>

definition part0_server_error :: "env \<Rightarrow> bool" where
  "part0_server_error e =
     (case gateway_response e of
        None \<Rightarrow> True
      | Some json \<Rightarrow>
          nullish json \<or> (truthy (opt_prop json ''status'') \<and> nullish (opt_prop json ''data'')))"

text \<open>
  In a trace, every call to the gateway comes after the insert of a row in state
  \<open>initiated\<close> with the reference the call carries. \<open>seen\<close> collects the
  references inserted so far.
\<close>

fun gateway_after_insert :: "jsval list \<Rightarrow> effect list \<Rightarrow> bool" where
  "gateway_after_insert seen [] = True"
| "gateway_after_insert seen (DbInsertPayment row r # xs) =
     gateway_after_insert (if status row = ''initiated'' then ref row # seen else seen) xs"
| "gateway_after_insert seen (GatewayInitialize r a # xs) =
     (r \<in> set seen \<and> gateway_after_insert seen xs)"
| "gateway_after_insert seen (x # xs) = gateway_after_insert seen xs"

text \<open>
  What a query does to the store, by its outcome. Console output and the gateway call
  leave the store alone.
\<close>

fun step :: "effect \<Rightarrow> store \<Rightarrow> store" where
  "step (DbInsertPayment row DbOk) s = s\<lparr>payments := payments s @ [row]\<rparr>"
| "step (DbUpdatePayments reference st DbOk) s =
     s\<lparr>payments := set_status reference st (payments s)\<rparr>"
| "step (DbUpdateAppointments a DbOk) s = s\<lparr>appointments := confirm a (appointments s)\<rparr>"
| "step x s = s"

text \<open>
  Along a trace that starts in store \<open>s\<close>, every call to the gateway finds a row in
  state \<open>initiated\<close> with the reference it carries.
\<close>

fun row_stored_at_gateway :: "store \<Rightarrow> effect list \<Rightarrow> bool" where
  "row_stored_at_gateway s [] = True"
| "row_stored_at_gateway s (GatewayInitialize r a # xs) =
     (list_ex (\<lambda>p. ref p = r \<and> status p = ''initiated'') (payments s)
      \<and> row_stored_at_gateway s xs)"
| "row_stored_at_gateway s (x # xs) = row_stored_at_gateway (step x s) xs"

section \<open>Sample inputs\<close>

text \<open>
  An environment without webhook secret in which every store query succeeds and the
  gateway refuses; a store with one payment and one pending appointment; a webhook
  delivery for that payment; an initiation request.
\<close>

definition sample_env :: env where
  "sample_env =
     \<lparr>PAYSTACK_WEBHOOK_SECRET = None,
      hmac_sha512_hex = (\<lambda>k m. k @ m),
      JSON_stringify = (\<lambda>v. ''{}''),
      uuidv4 = ''u1'',
      insert_result = DbOk,
      payment_update_result = DbOk,
      appointment_update_result = DbOk,
      gateway_response = Some (JObj [(''status'', JBool False), (''message'', JStr ''no'')])\<rparr>"

definition sample_world :: "string \<Rightarrow> world" where
  "sample_world st =
     \<lparr>db = \<lparr>payments = [\<lparr>appointment_id = JStr ''A1'', amount_ngn = JNum 5000,
                            provider = ''paystack'', status = st, ref = JStr ''ps_ref_X''\<rparr>],
             appointments = [\<lparr>appt_id = JStr ''A1'', appt_status = ''pending''\<rparr>]\<rparr>,
      trace = []\<rparr>"

definition sample_event :: "string \<Rightarrow> string \<Rightarrow> request" where
  "sample_event ty st =
     \<lparr>headers = [],
      body = JObj [(''event'', JStr ty),
                   (''data'', JObj [(''status'', JStr st),
                                    (''reference'', JStr ''ps_ref_X''),
                                    (''metadata'', JObj [(''appointment_id'', JStr ''A1'')])])]\<rparr>"

definition sample_init :: request where
  "sample_init =
     \<lparr>headers = [],
      body = JObj [(''appointment_id'', JStr ''A1''), (''amount_ngn'', JNum 5000)]\<rparr>"

section \<open>Closed forms\<close>

lemmas event_defs =
  event_type_def event_data_def event_reference_def event_appointment_id_def

lemmas sample_defs = sample_env_def sample_world_def sample_event_def

lemma opt_prop_nullish [simp]: "nullish v \<Longrightarrow> opt_prop v k = Undefined"
  by (auto simp: nullish_def)

lemma event_type_not_nullish: "event_type req = JStr t \<Longrightarrow> \<not> nullish (body req)"
  by (auto simp: event_type_def nullish_def)

lemma store_eqI:
  "payments s = payments t \<Longrightarrow> appointments s = appointments t \<Longrightarrow> s = (t::store)"
  by simp

lemma fresh_simps [simp]: "db (fresh w) = db w" "trace (fresh w) = []"
  by (simp_all add: fresh_def)

subsection \<open>The store\<close>

lemma set_status_length [simp]: "length (set_status r st ps) = length ps"
  by (simp add: set_status_def)

lemma set_status_nth:
  "i < length ps \<Longrightarrow>
   set_status r st ps ! i = (if ref (ps ! i) = r then (ps ! i)\<lparr>status := st\<rparr> else ps ! i)"
  by (simp add: set_status_def)

lemma set_status_idem [simp]: "set_status r st (set_status r st ps) = set_status r st ps"
  by (induction ps) (simp_all add: set_status_def)

lemma set_status_last:
  "ref row = r \<Longrightarrow> last (set_status r st (ps @ [row])) = row\<lparr>status := st\<rparr>"
  by (simp add: set_status_def)

lemma confirm_idem [simp]: "confirm a (confirm a xs) = confirm a xs"
  by (induction xs) (simp_all add: confirm_def)

lemma frame_refl: "list_all2 (frame r) ps ps"
  by (simp add: list_all2_same frame_def)

lemma frame_set_status: "list_all2 (frame r) ps (set_status r st ps)"
  by (induction ps) (simp_all add: set_status_def frame_def)

subsection \<open>\<open>verifyPaystackSignature\<close> and \<open>updatePaymentStatus\<close>\<close>

lemma verify_world: "db (snd (verifyPaystackSignature e req w)) = db w"
  by (simp add: verifyPaystackSignature_def emit_def Let_def split: option.splits)

lemma verify_fst_world:
  "fst (verifyPaystackSignature e req w') = fst (verifyPaystackSignature e req w)"
  by (simp add: verifyPaystackSignature_def emit_def Let_def split: option.splits)

lemma verify_fresh [simp]:
  "fst (verifyPaystackSignature e req (fresh w)) = fst (verifyPaystackSignature e req w)"
  by (rule verify_fst_world)

lemma verify_appt_result [simp]:
  "verifyPaystackSignature (e\<lparr>appointment_update_result := r\<rparr>) req w =
   verifyPaystackSignature e req w"
  by (simp add: verifyPaystackSignature_def Let_def split: option.splits)

lemma verify_trace:
  "trace (snd (verifyPaystackSignature e req w)) =
     trace w @
     (if PAYSTACK_WEBHOOK_SECRET e = None \<or> PAYSTACK_WEBHOOK_SECRET e = Some []
      then [ConsoleWarn
              ''Paystack webhook secret not configured, skipping signature verification'']
      else [])"
  by (simp add: verifyPaystackSignature_def emit_def Let_def split: option.splits)

lemma verify_rejects_trace:
  "fst (verifyPaystackSignature e req w) \<noteq> Inr True \<Longrightarrow>
   trace (snd (verifyPaystackSignature e req w)) = trace w"
  by (simp add: verifyPaystackSignature_def emit_def Let_def split: option.splits if_splits)

lemma updatePaymentStatus_fst:
  "fst (updatePaymentStatus e r st a w) =
     (case payment_update_result e of
        DbError m \<Rightarrow> Inl (DatabaseError (''Failed to update payment status: '' @ m))
      | DbOk \<Rightarrow> Inr True)"
  by (simp add: updatePaymentStatus_def Let_def split: db_result.splits)

lemma updatePaymentStatus_payments:
  "payments (db (snd (updatePaymentStatus e r st a w))) =
     (case payment_update_result e of
        DbError m \<Rightarrow> payments (db w)
      | DbOk \<Rightarrow> set_status r st (payments (db w)))"
  by (simp add: updatePaymentStatus_def update_payments_def update_appointments_def emit_def
        Let_def split: db_result.splits)

lemma updatePaymentStatus_appointments:
  "appointments (db (snd (updatePaymentStatus e r st a w))) =
     (if payment_update_result e = DbOk \<and> st = ''paid'' \<and> truthy a
         \<and> appointment_update_result e = DbOk
      then confirm a (appointments (db w)) else appointments (db w))"
  by (simp add: updatePaymentStatus_def update_payments_def update_appointments_def emit_def
        Let_def split: db_result.splits)

lemma updatePaymentStatus_trace:
  "trace (snd (updatePaymentStatus e r st a w)) =
     trace w @ DbUpdatePayments r st (payment_update_result e) #
       (if payment_update_result e = DbOk \<and> st = ''paid'' \<and> truthy a
        then DbUpdateAppointments a (appointment_update_result e) #
               (case appointment_update_result e of
                  DbOk \<Rightarrow> []
                | DbError m \<Rightarrow> [ConsoleError ''Failed to update appointment status:''])
        else [])"
  by (simp add: updatePaymentStatus_def update_payments_def update_appointments_def emit_def
        Let_def split: db_result.splits)

subsection \<open>The webhook of the main file\<close>

lemma webhook_try_fst:
  "fst (paystack_webhook_try e req w) =
     (if nullish (body req) then Inl (JsError ''TypeError'')
      else if event_type req = JStr ''charge.success'' \<or> event_type req = JStr ''charge.failed''
      then (if nullish (event_data req) then Inl (JsError ''TypeError'')
            else case payment_update_result e of
                   DbError m \<Rightarrow> Inl (DatabaseError (''Failed to update payment status: '' @ m))
                 | DbOk \<Rightarrow> Inr (SendStatus 200))
      else Inr (SendStatus 200))"
  by (cases "payment_update_result e")
     (simp_all add: paystack_webhook_try_def get_prop_def event_defs Let_def
        case_prod_beta updatePaymentStatus_fst)

lemma webhook_try_payments:
  "payments (db (snd (paystack_webhook_try e req w))) =
     (if \<not> nullish (body req) \<and> \<not> nullish (event_data req)
         \<and> payment_update_result e = DbOk
      then (if event_type req = JStr ''charge.success''
            then set_status (event_reference req) ''paid'' (payments (db w))
            else if event_type req = JStr ''charge.failed''
            then set_status (event_reference req) ''failed'' (payments (db w))
            else payments (db w))
      else payments (db w))"
  by (cases "payment_update_result e")
     (simp_all add: paystack_webhook_try_def get_prop_def event_defs Let_def emit_def
        case_prod_beta updatePaymentStatus_fst updatePaymentStatus_payments)

lemma webhook_try_appointments:
  "appointments (db (snd (paystack_webhook_try e req w))) =
     (if \<not> nullish (body req) \<and> \<not> nullish (event_data req)
         \<and> event_type req = JStr ''charge.success''
         \<and> payment_update_result e = DbOk
         \<and> truthy (event_appointment_id req)
         \<and> appointment_update_result e = DbOk
      then confirm (event_appointment_id req) (appointments (db w))
      else appointments (db w))"
  by (cases "payment_update_result e")
     (simp_all add: paystack_webhook_try_def get_prop_def event_defs Let_def emit_def
        case_prod_beta updatePaymentStatus_fst updatePaymentStatus_appointments)

lemma webhook_try_trace:
  "trace (snd (paystack_webhook_try e req w)) =
     trace w @
     (if nullish (body req) then []
      else ConsoleLog ''Paystack webhook received'' #
        (if (event_type req = JStr ''charge.success'' \<or> event_type req = JStr ''charge.failed'')
            \<and> \<not> nullish (event_data req)
         then DbUpdatePayments (event_reference req)
                (if event_type req = JStr ''charge.success'' then ''paid'' else ''failed'')
                (payment_update_result e) #
              (if event_type req = JStr ''charge.success'' \<and> payment_update_result e = DbOk
                  \<and> truthy (event_appointment_id req)
               then DbUpdateAppointments (event_appointment_id req)
                      (appointment_update_result e) #
                    (case appointment_update_result e of
                       DbOk \<Rightarrow> []
                     | DbError m \<Rightarrow> [ConsoleError ''Failed to update appointment status:''])
               else [])
         else []))"
  by (cases "payment_update_result e")
     (simp_all add: paystack_webhook_try_def get_prop_def event_defs Let_def emit_def
        case_prod_beta updatePaymentStatus_fst updatePaymentStatus_trace)

lemma webhook_fst:
  "fst (paystack_webhook e req w) =
     (case fst (verifyPaystackSignature e req w) of
        Inl err \<Rightarrow> Json 500 (JObj [(''error'', JStr ''Webhook processing failed'')])
      | Inr ok \<Rightarrow>
          if \<not> ok then Json 401 (JObj [(''error'', JStr ''Invalid signature'')])
          else case fst (paystack_webhook_try e req w) of
                 Inl err \<Rightarrow> Json 500 (JObj [(''error'', JStr ''Webhook processing failed'')])
               | Inr res \<Rightarrow> res)"
  by (simp add: paystack_webhook_def case_prod_beta webhook_try_fst Let_def
        split: sum.splits db_result.splits)

lemma webhook_payments:
  "payments (db (snd (paystack_webhook e req w))) =
     (if fst (verifyPaystackSignature e req w) = Inr True
      then payments (db (snd (paystack_webhook_try e req w)))
      else payments (db w))"
  by (simp add: paystack_webhook_def case_prod_beta emit_def webhook_try_payments verify_world
        Let_def split: sum.splits)

lemma webhook_appointments:
  "appointments (db (snd (paystack_webhook e req w))) =
     (if fst (verifyPaystackSignature e req w) = Inr True
      then appointments (db (snd (paystack_webhook_try e req w)))
      else appointments (db w))"
  by (simp add: paystack_webhook_def case_prod_beta emit_def webhook_try_appointments
        verify_world Let_def split: sum.splits)

lemma webhook_db:
  "db (snd (paystack_webhook e req w)) =
     (if fst (verifyPaystackSignature e req w) = Inr True
      then db (snd (paystack_webhook_try e req w))
      else db w)"
  by (rule store_eqI) (simp_all add: webhook_payments webhook_appointments)

lemma webhook_trace:
  "trace (snd (paystack_webhook e req w)) =
     (case fst (verifyPaystackSignature e req w) of
        Inl err \<Rightarrow>
          trace (snd (verifyPaystackSignature e req w)) @
          [ConsoleError ''Webhook processing error:'']
      | Inr ok \<Rightarrow>
          if ok
          then trace (snd (paystack_webhook_try e req (snd (verifyPaystackSignature e req w)))) @
               (case fst (paystack_webhook_try e req w) of
                  Inl err \<Rightarrow> [ConsoleError ''Webhook processing error:'']
                | Inr res \<Rightarrow> [])
          else trace (snd (verifyPaystackSignature e req w)) @
               [ConsoleError ''Invalid webhook signature''])"
  by (simp add: paystack_webhook_def case_prod_beta emit_def webhook_try_fst Let_def
        split: sum.splits db_result.splits)

lemma webhook_queries:
  assumes "fst (verifyPaystackSignature e req w) = Inr True"
  shows "filter is_query (trace (snd (paystack_webhook e req (fresh w)))) =
     (if nullish (body req) \<or> nullish (event_data req) then []
      else if event_type req = JStr ''charge.success''
      then DbUpdatePayments (event_reference req) ''paid'' (payment_update_result e) #
           (if payment_update_result e = DbOk \<and> truthy (event_appointment_id req)
            then [DbUpdateAppointments (event_appointment_id req) (appointment_update_result e)]
            else [])
      else if event_type req = JStr ''charge.failed''
      then [DbUpdatePayments (event_reference req) ''failed'' (payment_update_result e)]
      else [])"
  using assms
  by (cases "payment_update_result e"; cases "appointment_update_result e")
     (simp_all add: webhook_trace webhook_try_trace verify_trace webhook_try_fst)

lemma webhook_db_unchanged:
  "event_type req \<noteq> JStr ''charge.success'' \<Longrightarrow> event_type req \<noteq> JStr ''charge.failed'' \<Longrightarrow>
   db (snd (paystack_webhook e req w)) = db w"
  by (rule store_eqI)
     (simp_all add: webhook_payments webhook_appointments webhook_try_payments
        webhook_try_appointments)

lemma webhook_appt_result_fst:
  "fst (paystack_webhook (e\<lparr>appointment_update_result := r\<rparr>) req w) =
   fst (paystack_webhook e req w)"
  by (simp add: webhook_fst webhook_try_fst split: sum.splits)

lemma webhook_appt_result_payments:
  "payments (db (snd (paystack_webhook (e\<lparr>appointment_update_result := r\<rparr>) req w))) =
   payments (db (snd (paystack_webhook e req w)))"
  by (simp add: webhook_payments webhook_try_payments)

lemma webhook_frame:
  "list_all2 (frame (event_reference req)) (payments (db w))
     (payments (db (snd (paystack_webhook e req w))))"
  by (simp add: webhook_payments webhook_try_payments frame_refl frame_set_status)

subsection \<open>The webhook of part\_000\<close>

lemma part0_webhook_fst: "fst (part0_paystack_webhook e req w) = SendStatus 200"
  by (simp add: part0_paystack_webhook_def Let_def)

lemma part0_webhook_payments:
  "payments (db (snd (part0_paystack_webhook e req w))) =
     (if part0_is_success (body req) \<and> payment_update_result e = DbOk
      then set_status (event_reference req) ''paid'' (payments (db w))
      else payments (db w))"
  by (cases "payment_update_result e"; cases "appointment_update_result e")
     (simp_all add: part0_paystack_webhook_def Let_def event_defs update_payments_def
        update_appointments_def emit_def)

lemma part0_webhook_appointments:
  "appointments (db (snd (part0_paystack_webhook e req w))) =
     (if part0_is_success (body req) \<and> truthy (event_appointment_id req)
         \<and> appointment_update_result e = DbOk
      then confirm (event_appointment_id req) (appointments (db w))
      else appointments (db w))"
  by (cases "payment_update_result e"; cases "appointment_update_result e")
     (simp_all add: part0_paystack_webhook_def Let_def event_defs update_payments_def
        update_appointments_def emit_def)

lemma part0_webhook_trace:
  "trace (snd (part0_paystack_webhook e req w)) =
     trace w @ ConsoleLog ''Paystack webhook received'' #
     (if part0_is_success (body req)
      then DbUpdatePayments (event_reference req) ''paid'' (payment_update_result e) #
           (case payment_update_result e of
              DbOk \<Rightarrow> []
            | DbError m \<Rightarrow> [ConsoleError ''Error updating payment'']) @
           (if truthy (event_appointment_id req)
            then [DbUpdateAppointments (event_appointment_id req) (appointment_update_result e)]
            else [])
      else [])"
  by (cases "payment_update_result e"; cases "appointment_update_result e")
     (simp_all add: part0_paystack_webhook_def Let_def event_defs update_payments_def
        update_appointments_def emit_def)

lemma part0_webhook_queries:
  "filter is_query (trace (snd (part0_paystack_webhook e req (fresh w)))) =
     (if part0_is_success (body req)
      then DbUpdatePayments (event_reference req) ''paid'' (payment_update_result e) #
           (if truthy (event_appointment_id req)
            then [DbUpdateAppointments (event_appointment_id req) (appointment_update_result e)]
            else [])
      else [])"
  by (cases "payment_update_result e")
     (simp_all add: part0_webhook_trace)

lemma part0_webhook_db_unchanged:
  "\<not> part0_is_success (body req) \<Longrightarrow> db (snd (part0_paystack_webhook e req w)) = db w"
  by (rule store_eqI) (simp_all add: part0_webhook_payments part0_webhook_appointments)

lemma part0_webhook_frame:
  "list_all2 (frame (event_reference req)) (payments (db w))
     (payments (db (snd (part0_paystack_webhook e req w))))"
  by (simp add: part0_webhook_payments frame_refl frame_set_status)

subsection \<open>The initiation handlers\<close>

lemma valid_init_body: "valid_init req \<Longrightarrow> \<not> nullish (body req)"
  by (auto simp: valid_init_def nullish_def)

lemma init_trace:
  "trace (snd (paystack_init e req (fresh w))) =
     (if \<not> valid_init req then []
      else DbInsertPayment (init_row e req) (insert_result e) #
        (if insert_result e \<noteq> DbOk then []
         else GatewayInitialize (init_ref e) (opt_prop (body req) ''appointment_id'') #
           (if gateway_fails e
            then [DbUpdatePayments (init_ref e) ''failed'' (payment_update_result e)]
            else [])))"
proof (cases "valid_init req")
  case False
  then show ?thesis
    by (auto simp: paystack_init_def paystack_init_try_def valid_init_def Let_def)
next
  case True
  note valid_init_body [OF True]
  with True show ?thesis
    by (cases "insert_result e"; cases "gateway_response e"; cases "payment_update_result e")
       (simp_all add: paystack_init_def paystack_init_try_def valid_init_def Let_def
          createPaymentRecord_def insert_payment_def emit_def init_row_def init_ref_def
          gateway_fails_def case_prod_beta updatePaymentStatus_fst updatePaymentStatus_trace)
qed

lemma init_payments:
  "payments (db (snd (paystack_init e req w))) =
     (if valid_init req \<and> insert_result e = DbOk
      then (if gateway_fails e \<and> payment_update_result e = DbOk
            then set_status (init_ref e) ''failed'' (payments (db w) @ [init_row e req])
            else payments (db w) @ [init_row e req])
      else payments (db w))"
proof (cases "valid_init req")
  case False
  then show ?thesis
    by (auto simp: paystack_init_def paystack_init_try_def valid_init_def Let_def)
next
  case True
  note valid_init_body [OF True]
  with True show ?thesis
    by (cases "insert_result e"; cases "gateway_response e"; cases "payment_update_result e")
       (simp_all add: paystack_init_def paystack_init_try_def valid_init_def Let_def
          createPaymentRecord_def insert_payment_def emit_def init_row_def init_ref_def
          gateway_fails_def case_prod_beta updatePaymentStatus_fst updatePaymentStatus_payments)
qed

lemma init_fst_gateway_fails:
  assumes "valid_init req" and "gateway_fails e" and "insert_result e = DbOk"
  shows "fst (paystack_init e req w) =
     NextError (case payment_update_result e of
                  DbOk \<Rightarrow> PaymentError ''Paystack initialization failed: ''
                | DbError m \<Rightarrow> DatabaseError (''Failed to update payment status: '' @ m))"
  using assms valid_init_body [OF assms(1)]
  by (cases "gateway_response e"; cases "payment_update_result e")
     (simp_all add: paystack_init_def paystack_init_try_def valid_init_def Let_def
        createPaymentRecord_def gateway_fails_def case_prod_beta updatePaymentStatus_fst)

lemma part0_init_trace:
  "trace (snd (part0_paystack_init e req (fresh w))) =
     (if \<not> valid_init req then []
      else DbInsertPayment (init_row e req) (insert_result e) #
           (case insert_result e of
              DbOk \<Rightarrow> []
            | DbError m \<Rightarrow> [ConsoleError ''Supabase insert error'']) @
           GatewayInitialize (init_ref e) (opt_prop (body req) ''appointment_id'') #
           (if part0_server_error e then [ConsoleError ''err''] else []))"
proof (cases "valid_init req")
  case False
  then show ?thesis
    by (auto simp: part0_paystack_init_def valid_init_def Let_def)
next
  case True
  note valid_init_body [OF True]
  with True show ?thesis
    by (cases "insert_result e"; cases "gateway_response e")
       (simp_all add: part0_paystack_init_def valid_init_def Let_def part0_server_error_def
          part0_createPaymentRecord_def insert_payment_def emit_def init_row_def init_ref_def)
qed

lemma part0_init_payments:
  "payments (db (snd (part0_paystack_init e req w))) =
     (if valid_init req \<and> insert_result e = DbOk
      then payments (db w) @ [init_row e req] else payments (db w))"
proof (cases "valid_init req")
  case False
  then show ?thesis
    by (auto simp: part0_paystack_init_def valid_init_def Let_def)
next
  case True
  note valid_init_body [OF True]
  with True show ?thesis
    by (cases "insert_result e"; cases "gateway_response e")
       (simp_all add: part0_paystack_init_def valid_init_def Let_def
          part0_createPaymentRecord_def insert_payment_def emit_def init_row_def init_ref_def)
qed

lemma init_appointments:
  "appointments (db (snd (paystack_init e req w))) = appointments (db w)"
proof (cases "valid_init req")
  case False
  then show ?thesis
    by (auto simp: paystack_init_def paystack_init_try_def valid_init_def Let_def)
next
  case True
  note valid_init_body [OF True]
  with True show ?thesis
    by (cases "insert_result e"; cases "gateway_response e"; cases "payment_update_result e")
       (simp_all add: paystack_init_def paystack_init_try_def valid_init_def Let_def
          createPaymentRecord_def insert_payment_def emit_def
          case_prod_beta updatePaymentStatus_fst updatePaymentStatus_appointments)
qed

lemma part0_init_appointments:
  "appointments (db (snd (part0_paystack_init e req w))) = appointments (db w)"
proof (cases "valid_init req")
  case False
  then show ?thesis
    by (auto simp: part0_paystack_init_def valid_init_def Let_def)
next
  case True
  note valid_init_body [OF True]
  with True show ?thesis
    by (cases "insert_result e"; cases "gateway_response e")
       (simp_all add: part0_paystack_init_def valid_init_def Let_def
          part0_createPaymentRecord_def insert_payment_def emit_def)
qed

lemma init_replay:
  "db (snd (paystack_init e req w)) =
   fold step (trace (snd (paystack_init e req (fresh w)))) (db w)"
  by (rule store_eqI; cases "insert_result e"; cases "payment_update_result e")
     (simp_all add: init_trace init_payments init_appointments)

lemma part0_init_replay:
  "db (snd (part0_paystack_init e req w)) =
   fold step (trace (snd (part0_paystack_init e req (fresh w)))) (db w)"
  by (rule store_eqI; cases "insert_result e")
     (simp_all add: part0_init_trace part0_init_payments part0_init_appointments)

lemma init_row_stored:
  "row_stored_at_gateway (db w) (trace (snd (paystack_init e req (fresh w))))"
  by (cases "insert_result e"; cases "payment_update_result e")
     (simp_all add: init_trace init_row_def)

lemma part0_init_row_stored:
  "insert_result e = DbOk \<Longrightarrow>
   row_stored_at_gateway (db w) (trace (snd (part0_paystack_init e req (fresh w))))"
  by (simp add: part0_init_trace init_row_def)

lemma part0_init_fst_gateway_fails:
  assumes "valid_init req" and "gateway_fails e"
  shows "status_of (fst (part0_paystack_init e req w)) = Some 500"
  using assms valid_init_body [OF assms(1)]
  by (cases "gateway_response e")
     (simp_all add: part0_paystack_init_def valid_init_def Let_def gateway_fails_def)

section \<open>The claims\<close>

subsection \<open>C1: a late \<open>charge.failed\<close> and a payment that is already paid\<close>

text \<open>
  Claim C1 says that a \<open>charge.failed\<close> delivery leaves a payment that is already
  \<open>paid\<close> as it is. The main file updates without a guard on the current status.
  What holds instead: in the main file, a \<open>charge.failed\<close> delivery that passes the
  signature check and carries \<open>data\<close> sets every payment row with its reference to
  \<open>failed\<close> when the store accepts the update, whatever the row's status was, and
  leaves the payments as they were when the store rejects it. In part\_000 no delivery
  changes a row whose status is \<open>paid\<close>.
\<close>

theorem charge_failed_overwrites_status:
  "(fst (verifyPaystackSignature e req w) = Inr True
      \<and> event_type req = JStr ''charge.failed''
      \<and> \<not> nullish (event_data req) \<longrightarrow>
      (payment_update_result e = DbOk \<longrightarrow>
         (\<forall>i < length (payments (db w)).
            ref (payments (db w) ! i) = event_reference req \<longrightarrow>
            status (payments (db (snd (paystack_webhook e req w))) ! i) = ''failed''))
      \<and> (payment_update_result e \<noteq> DbOk \<longrightarrow>
           payments (db (snd (paystack_webhook e req w))) = payments (db w)))
   \<and> (\<forall>i < length (payments (db w)).
         status (payments (db w) ! i) = ''paid'' \<longrightarrow>
         payments (db (snd (part0_paystack_webhook e req w))) ! i = payments (db w) ! i)"
proof -
  have main: "payments (db (snd (paystack_webhook e req w))) =
      (if payment_update_result e = DbOk
       then set_status (event_reference req) ''failed'' (payments (db w))
       else payments (db w))"
    if "fst (verifyPaystackSignature e req w) = Inr True"
       "event_type req = JStr ''charge.failed''" "\<not> nullish (event_data req)"
    using that event_type_not_nullish [OF that(2)]
    by (simp add: webhook_payments webhook_try_payments)
  have old: "payments (db (snd (part0_paystack_webhook e req w))) ! i = payments (db w) ! i"
    if "i < length (payments (db w))" "status (payments (db w) ! i) = ''paid''" for i
    using that by (simp add: part0_webhook_payments set_status_nth)
  show ?thesis
    using main old by (simp add: set_status_nth)
qed

text \<open>
  The payment \<open>ps_ref_X\<close> is \<open>paid\<close>; a \<open>charge.failed\<close> delivery with that
  reference makes it \<open>failed\<close>.
\<close>

theorem paid_payment_becomes_failed:
  "status (hd (payments (db (sample_world ''paid'')))) = ''paid''
   \<and> ref (hd (payments (db (sample_world ''paid'')))) =
       event_reference (sample_event ''charge.failed'' ''failed'')
   \<and> status (hd (payments (db (snd (paystack_webhook sample_env
          (sample_event ''charge.failed'' ''failed'') (sample_world ''paid'')))))) = ''failed''"
  by (simp add: sample_defs event_defs webhook_payments webhook_try_payments
        verifyPaystackSignature_def nullish_def set_status_def)

theorem charge_failed_overwrites_status_witness:
  "fst (verifyPaystackSignature sample_env (sample_event ''charge.failed'' ''failed'')
          (sample_world ''paid'')) = Inr True
   \<and> status (payments (db (snd (paystack_webhook sample_env
          (sample_event ''charge.failed'' ''failed'') (sample_world ''paid'')))) ! 0) = ''failed''"
  using charge_failed_overwrites_status
    [where e = sample_env and req = "sample_event ''charge.failed'' ''failed''"
       and w = "sample_world ''paid''"]
  by (simp add: sample_defs event_defs verifyPaystackSignature_def nullish_def)

subsection \<open>C2: the insert and the gateway call\<close>

text \<open>
  Claim C2 says that for every valid initiation request a payment row in state
  \<open>initiated\<close> is persisted before the gateway is called. That holds in the main file
  and not in part\_000. In both files the insert is issued before any gateway call, and
  the store after the request is the store before it with the queries of the trace
  applied. In the main file every gateway call finds the row with its reference in the
  store, in state \<open>initiated\<close>: the gateway is called only when the insert succeeded,
  and a rejected insert ends the request with the store unchanged. In part\_000 the same
  holds when the insert succeeds; a rejected insert is logged and the gateway is called
  all the same, with the payments as they were before the request.
\<close>

theorem insert_precedes_gateway_call:
  "gateway_after_insert [] (trace (snd (paystack_init e req (fresh w))))
   \<and> row_stored_at_gateway (db w) (trace (snd (paystack_init e req (fresh w))))
   \<and> db (snd (paystack_init e req w)) =
       fold step (trace (snd (paystack_init e req (fresh w)))) (db w)
   \<and> (valid_init req \<and> insert_result e = DbOk \<longrightarrow>
        take 2 (trace (snd (paystack_init e req (fresh w)))) =
          [DbInsertPayment (init_row e req) DbOk,
           GatewayInitialize (init_ref e) (opt_prop (body req) ''appointment_id'')]
        \<and> list_ex (\<lambda>p. ref p = init_ref e) (payments (db (snd (paystack_init e req w)))))
   \<and> (valid_init req \<and> insert_result e \<noteq> DbOk \<longrightarrow>
        trace (snd (paystack_init e req (fresh w))) =
          [DbInsertPayment (init_row e req) (insert_result e)]
        \<and> payments (db (snd (paystack_init e req w))) = payments (db w))
   \<and> gateway_after_insert [] (trace (snd (part0_paystack_init e req (fresh w))))
   \<and> db (snd (part0_paystack_init e req w)) =
       fold step (trace (snd (part0_paystack_init e req (fresh w)))) (db w)
   \<and> (valid_init req \<and> insert_result e = DbOk \<longrightarrow>
        row_stored_at_gateway (db w) (trace (snd (part0_paystack_init e req (fresh w))))
        \<and> take 2 (trace (snd (part0_paystack_init e req (fresh w)))) =
          [DbInsertPayment (init_row e req) DbOk,
           GatewayInitialize (init_ref e) (opt_prop (body req) ''appointment_id'')])
   \<and> (valid_init req \<and> insert_result e \<noteq> DbOk \<longrightarrow>
        take 3 (trace (snd (part0_paystack_init e req (fresh w)))) =
          [DbInsertPayment (init_row e req) (insert_result e),
           ConsoleError ''Supabase insert error'',
           GatewayInitialize (init_ref e) (opt_prop (body req) ''appointment_id'')]
        \<and> payments (db (snd (part0_paystack_init e req w))) = payments (db w))"
proof -
  have main_order: "gateway_after_insert [] (trace (snd (paystack_init e req (fresh w))))"
    by (cases "insert_result e") (simp_all add: init_trace init_row_def)
  have part0_order:
    "gateway_after_insert [] (trace (snd (part0_paystack_init e req (fresh w))))"
    by (cases "insert_result e") (simp_all add: part0_init_trace init_row_def)
  have main_ok: "take 2 (trace (snd (paystack_init e req (fresh w)))) =
          [DbInsertPayment (init_row e req) DbOk,
           GatewayInitialize (init_ref e) (opt_prop (body req) ''appointment_id'')]
        \<and> list_ex (\<lambda>p. ref p = init_ref e) (payments (db (snd (paystack_init e req w))))"
    if "valid_init req" "insert_result e = DbOk"
    using that by (simp add: init_trace init_payments init_row_def set_status_def)
  have main_rejected: "trace (snd (paystack_init e req (fresh w))) =
          [DbInsertPayment (init_row e req) (insert_result e)]
        \<and> payments (db (snd (paystack_init e req w))) = payments (db w)"
    if "valid_init req" "insert_result e \<noteq> DbOk"
    using that by (simp add: init_trace init_payments)
  have part0_ok:
    "row_stored_at_gateway (db w) (trace (snd (part0_paystack_init e req (fresh w))))
     \<and> take 2 (trace (snd (part0_paystack_init e req (fresh w)))) =
          [DbInsertPayment (init_row e req) DbOk,
           GatewayInitialize (init_ref e) (opt_prop (body req) ''appointment_id'')]"
    if "valid_init req" "insert_result e = DbOk"
    using that by (simp add: part0_init_trace init_row_def)
  have part0_rejected:
    "take 3 (trace (snd (part0_paystack_init e req (fresh w)))) =
          [DbInsertPayment (init_row e req) (insert_result e),
           ConsoleError ''Supabase insert error'',
           GatewayInitialize (init_ref e) (opt_prop (body req) ''appointment_id'')]
     \<and> payments (db (snd (part0_paystack_init e req w))) = payments (db w)"
    if "valid_init req" "insert_result e \<noteq> DbOk"
    using that
    by (cases "insert_result e") (simp_all add: part0_init_trace part0_init_payments)
  show ?thesis
    using main_order part0_order main_ok main_rejected part0_ok part0_rejected
      init_row_stored [of w e req] init_replay [of e req w] part0_init_replay [of e req w]
    by blast
qed

text \<open>
  part\_000 receives a valid request and the store rejects the insert: the gateway is
  called with the reference \<open>ps_ref_u1\<close>, and the store holds no row with that
  reference, neither when the call is made nor after the request.
\<close>

theorem part0_gateway_call_without_row:
  "valid_init sample_init
   \<and> GatewayInitialize (JStr ''ps_ref_u1'') (JStr ''A1'')
       \<in> set (trace (snd (part0_paystack_init (sample_env\<lparr>insert_result := DbError ''down''\<rparr>)
                sample_init (fresh (sample_world ''paid'')))))
   \<and> \<not> row_stored_at_gateway (db (sample_world ''paid''))
         (trace (snd (part0_paystack_init (sample_env\<lparr>insert_result := DbError ''down''\<rparr>)
                sample_init (fresh (sample_world ''paid'')))))
   \<and> \<not> list_ex (\<lambda>p. ref p = JStr ''ps_ref_u1'')
         (payments (db (snd (part0_paystack_init (sample_env\<lparr>insert_result := DbError ''down''\<rparr>)
                sample_init (sample_world ''paid'')))))"
  by (simp add: part0_init_trace part0_init_payments valid_init_def sample_init_def
        sample_env_def sample_world_def init_row_def init_ref_def part0_server_error_def
        nullish_def)

theorem insert_precedes_gateway_call_witness:
  "valid_init sample_init
   \<and> take 2 (trace (snd (paystack_init sample_env sample_init (fresh (sample_world ''paid''))))) =
      [DbInsertPayment \<lparr>appointment_id = JStr ''A1'', amount_ngn = JNum 5000,
          provider = ''paystack'', status = ''initiated'', ref = JStr ''ps_ref_u1''\<rparr> DbOk,
       GatewayInitialize (JStr ''ps_ref_u1'') (JStr ''A1'')]
   \<and> row_stored_at_gateway (db (sample_world ''paid''))
        (trace (snd (paystack_init sample_env sample_init (fresh (sample_world ''paid'')))))"
  using insert_precedes_gateway_call
    [where e = sample_env and w = "sample_world ''paid''" and req = sample_init]
  by (simp add: sample_env_def sample_init_def valid_init_def init_row_def init_ref_def)

subsection \<open>C3: the answer to a verified delivery\<close>

text \<open>
  Claim C3 says that a delivery that passes the signature check and whose body parses is
  always answered with 200, also when the store updates fail. The main file answers 500
  when the payment update fails. What holds instead, for every delivery that passes the
  check: the main file answers 500 when the request has no body, or when the type is
  \<open>charge.success\<close> or \<open>charge.failed\<close> and the event carries no \<open>data\<close> or the
  store rejects the payment update; it answers 200 in every other case. The outcome of
  the appointment update never changes the answer. part\_000 answers 200 to every
  delivery.
\<close>

theorem webhook_status_code:
  assumes "fst (verifyPaystackSignature e req w) = Inr True"
  shows "status_of (fst (paystack_webhook e req w)) =
           Some (if nullish (body req)
                    \<or> ((event_type req = JStr ''charge.success''
                         \<or> event_type req = JStr ''charge.failed'')
                        \<and> (nullish (event_data req) \<or> payment_update_result e \<noteq> DbOk))
                 then 500 else 200)
         \<and> fst (paystack_webhook (e\<lparr>appointment_update_result := r\<rparr>) req w) =
             fst (paystack_webhook e req w)
         \<and> status_of (fst (part0_paystack_webhook e req w)) = Some 200"
proof -
  have "status_of (fst (paystack_webhook e req w)) =
           Some (if nullish (body req)
                    \<or> ((event_type req = JStr ''charge.success''
                         \<or> event_type req = JStr ''charge.failed'')
                        \<and> (nullish (event_data req) \<or> payment_update_result e \<noteq> DbOk))
                 then 500 else 200)"
    using assms
    by (cases "payment_update_result e") (auto simp: webhook_fst webhook_try_fst)
  then show ?thesis
    by (simp add: webhook_appt_result_fst part0_webhook_fst)
qed

text \<open>
  A \<open>charge.success\<close> delivery with a body passes the check, the store rejects the
  payment update, and the answer is 500.
\<close>

theorem webhook_500_on_store_failure:
  "fst (verifyPaystackSignature (sample_env\<lparr>payment_update_result := DbError ''timeout''\<rparr>)
          (sample_event ''charge.success'' ''success'') (sample_world ''initiated'')) = Inr True
   \<and> \<not> nullish (body (sample_event ''charge.success'' ''success''))
   \<and> status_of (fst (paystack_webhook
          (sample_env\<lparr>payment_update_result := DbError ''timeout''\<rparr>)
          (sample_event ''charge.success'' ''success'') (sample_world ''initiated''))) = Some 500"
  by (simp add: sample_defs event_defs webhook_fst webhook_try_fst verifyPaystackSignature_def
        nullish_def)

theorem webhook_status_code_witness:
  "fst (verifyPaystackSignature (sample_env\<lparr>appointment_update_result := DbError ''down''\<rparr>)
          (sample_event ''charge.success'' ''success'') (sample_world ''initiated'')) = Inr True
   \<and> status_of (fst (paystack_webhook
          (sample_env\<lparr>appointment_update_result := DbError ''down''\<rparr>)
          (sample_event ''charge.success'' ''success'') (sample_world ''initiated''))) = Some 200
   \<and> status_of (fst (paystack_webhook sample_env \<lparr>headers = [], body = Undefined\<rparr>
          (sample_world ''initiated''))) = Some 500"
proof -
  let ?e = "sample_env\<lparr>appointment_update_result := DbError ''down''\<rparr>"
  let ?req = "sample_event ''charge.success'' ''success''"
  let ?none = "\<lparr>headers = [], body = Undefined\<rparr>"
  have v: "fst (verifyPaystackSignature ?e ?req (sample_world ''initiated'')) = Inr True"
    by (simp add: sample_defs verifyPaystackSignature_def)
  have v': "fst (verifyPaystackSignature sample_env ?none (sample_world ''initiated'')) = Inr True"
    by (simp add: sample_defs verifyPaystackSignature_def)
  have "status_of (fst (paystack_webhook ?e ?req (sample_world ''initiated''))) = Some 200"
    using webhook_status_code [OF v] by (simp add: sample_defs event_defs nullish_def)
  moreover
  have "status_of (fst (paystack_webhook sample_env ?none (sample_world ''initiated''))) =
      Some 500"
    using webhook_status_code [OF v'] by (simp add: nullish_def)
  ultimately show ?thesis
    using v by blast
qed

subsection \<open>C4: a delivery whose signature does not verify\<close>

text \<open>
  Claim C4 says that a delivery whose signature does not verify is answered with 401 and
  changes nothing in the store. That holds in the main file and not in part\_000. In the
  main file, when the verifier returns false the handler answers 401, logs the rejection,
  issues no query and leaves the store as it is; when the verifier throws (a secret is
  set and the request has no body) the handler answers 500, also without a query.
  part\_000 checks no signature: what it answers and what it does to the store depend
  neither on the headers of the request nor on the secret, and it answers 200.
\<close>

theorem invalid_signature_rejected:
  "(fst (verifyPaystackSignature e req w) = Inr False \<longrightarrow>
      fst (paystack_webhook e req w) = Json 401 (JObj [(''error'', JStr ''Invalid signature'')])
      \<and> status_of (fst (paystack_webhook e req w)) = Some 401
      \<and> db (snd (paystack_webhook e req w)) = db w
      \<and> trace (snd (paystack_webhook e req w)) =
          trace w @ [ConsoleError ''Invalid webhook signature''])
   \<and> (\<forall>err. fst (verifyPaystackSignature e req w) = Inl err \<longrightarrow>
        status_of (fst (paystack_webhook e req w)) = Some 500
        \<and> db (snd (paystack_webhook e req w)) = db w
        \<and> trace (snd (paystack_webhook e req w)) =
            trace w @ [ConsoleError ''Webhook processing error:''])
   \<and> part0_paystack_webhook (e\<lparr>PAYSTACK_WEBHOOK_SECRET := k\<rparr>) (req\<lparr>headers := h\<rparr>) w =
       part0_paystack_webhook e req w
   \<and> status_of (fst (part0_paystack_webhook e req w)) = Some 200"
proof -
  have rejected:
    "fst (paystack_webhook e req w) = Json 401 (JObj [(''error'', JStr ''Invalid signature'')])
      \<and> status_of (fst (paystack_webhook e req w)) = Some 401
      \<and> db (snd (paystack_webhook e req w)) = db w
      \<and> trace (snd (paystack_webhook e req w)) =
          trace w @ [ConsoleError ''Invalid webhook signature'']"
    if "fst (verifyPaystackSignature e req w) = Inr False"
    using that verify_rejects_trace [of e req w]
    by (simp add: webhook_fst webhook_db webhook_trace)
  have thrown:
    "status_of (fst (paystack_webhook e req w)) = Some 500
        \<and> db (snd (paystack_webhook e req w)) = db w
        \<and> trace (snd (paystack_webhook e req w)) =
            trace w @ [ConsoleError ''Webhook processing error:'']"
    if "fst (verifyPaystackSignature e req w) = Inl err" for err
    using that verify_rejects_trace [of e req w]
    by (simp add: webhook_fst webhook_db webhook_trace)
  have blind:
    "part0_paystack_webhook (e\<lparr>PAYSTACK_WEBHOOK_SECRET := k\<rparr>) (req\<lparr>headers := h\<rparr>) w =
       part0_paystack_webhook e req w"
    by (simp add: part0_paystack_webhook_def Let_def)
  show ?thesis
    using rejected thrown blind by (simp add: part0_webhook_fst)
qed

text \<open>
  With the secret \<open>whsec\<close> set, the verifier rejects a \<open>charge.success\<close> delivery
  that carries no signature header; part\_000 answers it with 200, marks the payment
  \<open>paid\<close> and confirms the appointment.
\<close>

theorem part0_reconciles_rejected_delivery:
  "fst (verifyPaystackSignature (sample_env\<lparr>PAYSTACK_WEBHOOK_SECRET := Some ''whsec''\<rparr>)
        (sample_event ''charge.success'' ''success'') (sample_world ''initiated'')) = Inr False
   \<and> status_of (fst (part0_paystack_webhook
        (sample_env\<lparr>PAYSTACK_WEBHOOK_SECRET := Some ''whsec''\<rparr>)
        (sample_event ''charge.success'' ''success'') (sample_world ''initiated''))) = Some 200
   \<and> map status (payments (db (snd (part0_paystack_webhook
        (sample_env\<lparr>PAYSTACK_WEBHOOK_SECRET := Some ''whsec''\<rparr>)
        (sample_event ''charge.success'' ''success'') (sample_world ''initiated''))))) = [''paid'']
   \<and> map appt_status (appointments (db (snd (part0_paystack_webhook
        (sample_env\<lparr>PAYSTACK_WEBHOOK_SECRET := Some ''whsec''\<rparr>)
        (sample_event ''charge.success'' ''success'') (sample_world ''initiated''))))) =
      [''confirmed'']"
  by (simp add: sample_defs event_defs verifyPaystackSignature_def part0_webhook_fst
        part0_webhook_payments part0_webhook_appointments part0_is_success_def
        set_status_def confirm_def)

theorem invalid_signature_rejected_witness:
  "fst (verifyPaystackSignature (sample_env\<lparr>PAYSTACK_WEBHOOK_SECRET := Some ''whsec''\<rparr>)
        (sample_event ''charge.success'' ''success'') (sample_world ''initiated'')) = Inr False
   \<and> status_of (fst (paystack_webhook (sample_env\<lparr>PAYSTACK_WEBHOOK_SECRET := Some ''whsec''\<rparr>)
        (sample_event ''charge.success'' ''success'') (sample_world ''initiated''))) = Some 401
   \<and> db (snd (paystack_webhook (sample_env\<lparr>PAYSTACK_WEBHOOK_SECRET := Some ''whsec''\<rparr>)
        (sample_event ''charge.success'' ''success'') (sample_world ''initiated''))) =
      db (sample_world ''initiated'')"
proof -
  let ?e = "sample_env\<lparr>PAYSTACK_WEBHOOK_SECRET := Some ''whsec''\<rparr>"
  let ?req = "sample_event ''charge.success'' ''success''"
  have v: "fst (verifyPaystackSignature ?e ?req (sample_world ''initiated'')) = Inr False"
    by (simp add: sample_defs verifyPaystackSignature_def)
  show ?thesis
    using v invalid_signature_rejected
      [where e = ?e and req = ?req and w = "sample_world ''initiated''"]
    by blast
qed

subsection \<open>C5: what the event type selects\<close>

text \<open>
  Claim C5 says that the event type alone selects the action: \<open>charge.success\<close>
  targets \<open>paid\<close>, \<open>charge.failed\<close> targets \<open>failed\<close>, any other type changes
  nothing and is no error. That is what the main file does for a delivery that passes the
  signature check: the queries it issues are the payment update to \<open>paid\<close> (followed by
  the appointment update when the payment update succeeded and an appointment id is
  there), the payment update to \<open>failed\<close>, or none, by the event type; another type
  leaves the store as it is and is answered with 200. part\_000 differs: it updates
  to \<open>paid\<close> when the type is \<open>charge.success\<close> or \<open>data.status\<close> is
  \<open>success\<close>, and does nothing for every other delivery, \<open>charge.failed\<close> included.
\<close>

theorem event_type_selects_action:
  "(fst (verifyPaystackSignature e req w) = Inr True \<and> \<not> nullish (body req)
      \<and> \<not> nullish (event_data req) \<longrightarrow>
      filter is_query (trace (snd (paystack_webhook e req (fresh w)))) =
        (if event_type req = JStr ''charge.success''
         then DbUpdatePayments (event_reference req) ''paid'' (payment_update_result e) #
              (if payment_update_result e = DbOk \<and> truthy (event_appointment_id req)
               then [DbUpdateAppointments (event_appointment_id req)
                       (appointment_update_result e)]
               else [])
         else if event_type req = JStr ''charge.failed''
         then [DbUpdatePayments (event_reference req) ''failed'' (payment_update_result e)]
         else []))
   \<and> (fst (verifyPaystackSignature e req w) = Inr True \<and> \<not> nullish (body req)
       \<and> event_type req \<noteq> JStr ''charge.success''
       \<and> event_type req \<noteq> JStr ''charge.failed'' \<longrightarrow>
        db (snd (paystack_webhook e req w)) = db w
        \<and> fst (paystack_webhook e req w) = SendStatus 200)
   \<and> filter is_query (trace (snd (part0_paystack_webhook e req (fresh w)))) =
        (if part0_is_success (body req)
         then DbUpdatePayments (event_reference req) ''paid'' (payment_update_result e) #
              (if truthy (event_appointment_id req)
               then [DbUpdateAppointments (event_appointment_id req)
                       (appointment_update_result e)]
               else [])
         else [])
   \<and> (\<not> part0_is_success (body req) \<longrightarrow> db (snd (part0_paystack_webhook e req w)) = db w)
   \<and> fst (part0_paystack_webhook e req w) = SendStatus 200"
  by (simp add: webhook_queries part0_webhook_queries part0_webhook_db_unchanged
        webhook_db_unchanged webhook_fst webhook_try_fst part0_webhook_fst)

text \<open>
  part\_000 receives a \<open>charge.failed\<close> delivery for the payment \<open>ps_ref_X\<close>, which
  is \<open>initiated\<close>; the store is as before and the payment still \<open>initiated\<close>.
\<close>

theorem part0_ignores_charge_failed:
  "event_type (sample_event ''charge.failed'' ''failed'') = JStr ''charge.failed''
   \<and> db (snd (part0_paystack_webhook sample_env (sample_event ''charge.failed'' ''failed'')
        (sample_world ''initiated''))) = db (sample_world ''initiated'')
   \<and> map status (payments (db (snd (part0_paystack_webhook sample_env
        (sample_event ''charge.failed'' ''failed'') (sample_world ''initiated''))))) =
      [''initiated'']"
  by (simp add: sample_defs event_defs part0_webhook_db_unchanged part0_is_success_def)

theorem event_type_selects_action_witness:
  "filter is_query (trace (snd (paystack_webhook sample_env
      (sample_event ''charge.failed'' ''failed'') (fresh (sample_world ''initiated''))))) =
     [DbUpdatePayments (JStr ''ps_ref_X'') ''failed'' DbOk]
   \<and> filter is_query (trace (snd (paystack_webhook sample_env
      (sample_event ''charge.success'' ''success'') (fresh (sample_world ''initiated''))))) =
     [DbUpdatePayments (JStr ''ps_ref_X'') ''paid'' DbOk,
      DbUpdateAppointments (JStr ''A1'') DbOk]
   \<and> fst (paystack_webhook sample_env (sample_event ''transfer.success'' ''success'')
        (sample_world ''initiated'')) = SendStatus 200
   \<and> db (snd (paystack_webhook sample_env (sample_event ''transfer.success'' ''success'')
        (sample_world ''initiated''))) = db (sample_world ''initiated'')"
  using event_type_selects_action
          [where e = sample_env and req = "sample_event ''charge.failed'' ''failed''"
             and w = "sample_world ''initiated''"]
        event_type_selects_action
          [where e = sample_env and req = "sample_event ''charge.success'' ''success''"
             and w = "sample_world ''initiated''"]
        event_type_selects_action
          [where e = sample_env and req = "sample_event ''transfer.success'' ''success''"
             and w = "sample_world ''initiated''"]
  by (simp add: sample_defs event_defs verifyPaystackSignature_def nullish_def)

subsection \<open>C6: the gateway refuses the initiation\<close>

text \<open>
  Claim C6 says that when the gateway reports failure the payment just created becomes
  \<open>failed\<close> and the caller gets a \<open>PaymentError\<close>. In the main file that holds when
  the store accepts the status update. What holds in general, for a valid request whose
  insert succeeded and whose gateway call reports failure: if the store accepts the
  update, the new row (the last one) is \<open>failed\<close> and the handler passes a
  \<open>PaymentError\<close> (400) on; if the store rejects it, the row stays \<open>initiated\<close> and
  the handler passes the \<open>DatabaseError\<close> (500) on. part\_000 answers 500 and leaves the
  row \<open>initiated\<close>.
\<close>

theorem gateway_failure_outcome:
  assumes "valid_init req" and "gateway_fails e" and "insert_result e = DbOk"
  shows "(payment_update_result e = DbOk \<longrightarrow>
            fst (paystack_init e req w) =
              NextError (PaymentError ''Paystack initialization failed: '')
            \<and> status_of (fst (paystack_init e req w)) = Some 400
            \<and> payments (db (snd (paystack_init e req w))) =
                set_status (init_ref e) ''failed'' (payments (db w) @ [init_row e req])
            \<and> last (payments (db (snd (paystack_init e req w)))) =
                (init_row e req)\<lparr>status := ''failed''\<rparr>)
         \<and> (\<forall>m. payment_update_result e = DbError m \<longrightarrow>
            fst (paystack_init e req w) =
              NextError (DatabaseError (''Failed to update payment status: '' @ m))
            \<and> status_of (fst (paystack_init e req w)) = Some 500
            \<and> payments (db (snd (paystack_init e req w))) = payments (db w) @ [init_row e req])
         \<and> status_of (fst (part0_paystack_init e req w)) = Some 500
         \<and> payments (db (snd (part0_paystack_init e req w))) = payments (db w) @ [init_row e req]"
  using assms
  by (simp add: init_fst_gateway_fails init_payments part0_init_payments
        part0_init_fst_gateway_fails set_status_last init_row_def)

text \<open>
  A valid request, the gateway refuses, the store rejects the status update: the caller
  gets 500 and the new payment is still \<open>initiated\<close>.
\<close>

theorem gateway_failure_database_error:
  "valid_init sample_init
   \<and> gateway_fails (sample_env\<lparr>payment_update_result := DbError ''timeout''\<rparr>)
   \<and> status_of (fst (paystack_init (sample_env\<lparr>payment_update_result := DbError ''timeout''\<rparr>)
        sample_init (sample_world ''paid''))) = Some 500
   \<and> status (last (payments (db (snd (paystack_init
        (sample_env\<lparr>payment_update_result := DbError ''timeout''\<rparr>)
        sample_init (sample_world ''paid'')))))) = ''initiated''"
  by (simp add: sample_env_def sample_init_def valid_init_def gateway_fails_def nullish_def
        init_payments init_fst_gateway_fails init_row_def)

theorem gateway_failure_outcome_witness:
  "valid_init sample_init
   \<and> gateway_fails sample_env
   \<and> status_of (fst (paystack_init sample_env sample_init (sample_world ''paid''))) = Some 400
   \<and> status (last (payments (db (snd (paystack_init sample_env sample_init
        (sample_world ''paid'')))))) = ''failed''"
proof -
  have v: "valid_init sample_init"
    by (simp add: valid_init_def sample_init_def)
  have g: "gateway_fails sample_env"
    by (simp add: sample_env_def gateway_fails_def nullish_def)
  have i: "insert_result sample_env = DbOk"
    by (simp add: sample_env_def)
  have u: "payment_update_result sample_env = DbOk"
    by (simp add: sample_env_def)
  note t = gateway_failure_outcome [OF v g i, of "sample_world ''paid''"]
  from t u
  have a: "status_of (fst (paystack_init sample_env sample_init (sample_world ''paid''))) =
      Some 400"
    by blast
  from t u
  have "last (payments (db (snd (paystack_init sample_env sample_init
      (sample_world ''paid''))))) = (init_row sample_env sample_init)\<lparr>status := ''failed''\<rparr>"
    by blast
  then have b: "status (last (payments (db (snd (paystack_init sample_env sample_init
      (sample_world ''paid'')))))) = ''failed''"
    by simp
  show ?thesis
    using v g a b by blast
qed

subsection \<open>C7: delivering an event twice\<close>

text \<open>
  Claim C7: reconciliation is idempotent. In both files, a second delivery of the same
  event leaves the store as the first delivery left it and gets the answer the first one
  got; the answer of a handler never depends on what the store holds. And once the store
  has accepted the payment update of a verified delivery, delivering the event again
  leaves the payments as they are, whatever the store and the signature check answer the
  second time.
\<close>

theorem webhook_idempotent:
  "db (snd (paystack_webhook e req (snd (paystack_webhook e req w)))) =
     db (snd (paystack_webhook e req w))
   \<and> fst (paystack_webhook e req w') = fst (paystack_webhook e req w)
   \<and> db (snd (part0_paystack_webhook e req (snd (part0_paystack_webhook e req w)))) =
     db (snd (part0_paystack_webhook e req w))
   \<and> fst (part0_paystack_webhook e req w') = fst (part0_paystack_webhook e req w)
   \<and> (fst (verifyPaystackSignature e req w) = Inr True \<and> payment_update_result e = DbOk \<longrightarrow>
        payments (db (snd (paystack_webhook e' req (snd (paystack_webhook e req w))))) =
        payments (db (snd (paystack_webhook e req w))))
   \<and> (payment_update_result e = DbOk \<longrightarrow>
        payments (db (snd (part0_paystack_webhook e' req
          (snd (part0_paystack_webhook e req w))))) =
        payments (db (snd (part0_paystack_webhook e req w))))"
proof -
  let ?w1 = "snd (paystack_webhook e req w)"
  have v: "fst (verifyPaystackSignature e req ?w1) = fst (verifyPaystackSignature e req w)"
    by (rule verify_fst_world)
  have twice: "db (snd (paystack_webhook e req ?w1)) = db ?w1"
    by (rule store_eqI)
       (simp_all add: webhook_payments webhook_appointments v webhook_try_payments
          webhook_try_appointments)
  have answer: "fst (paystack_webhook e req w') = fst (paystack_webhook e req w)"
    by (simp add: webhook_fst webhook_try_fst verify_fst_world [of e req w' w]
          split: sum.splits)
  have part0_twice:
    "db (snd (part0_paystack_webhook e req (snd (part0_paystack_webhook e req w)))) =
     db (snd (part0_paystack_webhook e req w))"
    by (rule store_eqI) (simp_all add: part0_webhook_payments part0_webhook_appointments)
  have again: "payments (db (snd (paystack_webhook e' req ?w1))) = payments (db ?w1)"
    if "fst (verifyPaystackSignature e req w) = Inr True" "payment_update_result e = DbOk"
    using that by (simp add: webhook_payments webhook_try_payments)
  have part0_again:
    "payments (db (snd (part0_paystack_webhook e' req
       (snd (part0_paystack_webhook e req w))))) =
     payments (db (snd (part0_paystack_webhook e req w)))"
    if "payment_update_result e = DbOk"
    using that by (simp add: part0_webhook_payments)
  show ?thesis
    using twice answer part0_twice again part0_again
    by (simp add: part0_webhook_fst)
qed

theorem webhook_idempotent_witness:
  "fst (verifyPaystackSignature sample_env (sample_event ''charge.success'' ''success'')
      (sample_world ''initiated'')) = Inr True
   \<and> payment_update_result sample_env = DbOk
   \<and> payments (db (snd (paystack_webhook sample_env (sample_event ''charge.success'' ''success'')
      (snd (paystack_webhook sample_env (sample_event ''charge.success'' ''success'')
         (sample_world ''initiated''))))))
     = [\<lparr>appointment_id = JStr ''A1'', amount_ngn = JNum 5000, provider = ''paystack'',
          status = ''paid'', ref = JStr ''ps_ref_X''\<rparr>]
   \<and> fst (paystack_webhook sample_env (sample_event ''charge.success'' ''success'')
      (snd (paystack_webhook sample_env (sample_event ''charge.success'' ''success'')
         (sample_world ''initiated'')))) = SendStatus 200"
  using webhook_idempotent
    [where e = sample_env and e' = sample_env
       and req = "sample_event ''charge.success'' ''success''"
       and w = "sample_world ''initiated''"
       and w' = "snd (paystack_webhook sample_env (sample_event ''charge.success'' ''success'')
                   (sample_world ''initiated''))"]
  by (simp add: sample_defs event_defs webhook_fst webhook_try_fst webhook_payments
        webhook_try_payments verifyPaystackSignature_def nullish_def set_status_def)

subsection \<open>C8: the appointment update is best effort\<close>

text \<open>
  Claim C8: the appointment is set to \<open>confirmed\<close> only when the target status is
  \<open>paid\<close> and the event carries an appointment id, and a failure of that update
  neither undoes nor fails the payment update and does not reach the sender. In both
  files, an appointment update in the trace of a delivery comes with the payment update
  to \<open>paid\<close> and has the truthy appointment id of the event (in the main file that
  payment update has succeeded); the answer and the payments after the delivery are the
  same whatever the outcome of the appointment update.
\<close>

theorem appointment_update_best_effort:
  "(fst (verifyPaystackSignature e req w) = Inr True \<longrightarrow>
     (\<forall>x r. DbUpdateAppointments x r \<in> set (trace (snd (paystack_webhook e req (fresh w)))) \<longrightarrow>
        DbUpdatePayments (event_reference req) ''paid'' DbOk
          \<in> set (trace (snd (paystack_webhook e req (fresh w))))
        \<and> x = event_appointment_id req \<and> truthy x))
   \<and> (appointments (db (snd (paystack_webhook e req w))) \<noteq> appointments (db w) \<longrightarrow>
        event_type req = JStr ''charge.success'' \<and> truthy (event_appointment_id req))
   \<and> fst (paystack_webhook (e\<lparr>appointment_update_result := r'\<rparr>) req w) =
        fst (paystack_webhook e req w)
   \<and> payments (db (snd (paystack_webhook (e\<lparr>appointment_update_result := r'\<rparr>) req w))) =
        payments (db (snd (paystack_webhook e req w)))
   \<and> (\<forall>x r. DbUpdateAppointments x r
          \<in> set (trace (snd (part0_paystack_webhook e req (fresh w)))) \<longrightarrow>
        DbUpdatePayments (event_reference req) ''paid'' (payment_update_result e)
          \<in> set (trace (snd (part0_paystack_webhook e req (fresh w))))
        \<and> x = event_appointment_id req \<and> truthy x)
   \<and> fst (part0_paystack_webhook (e\<lparr>appointment_update_result := r'\<rparr>) req w) =
        fst (part0_paystack_webhook e req w)
   \<and> payments (db (snd (part0_paystack_webhook (e\<lparr>appointment_update_result := r'\<rparr>) req w))) =
        payments (db (snd (part0_paystack_webhook e req w)))"
proof -
  have a: "DbUpdatePayments (event_reference req) ''paid'' DbOk
          \<in> set (trace (snd (paystack_webhook e req (fresh w))))
        \<and> x = event_appointment_id req \<and> truthy x"
    if "fst (verifyPaystackSignature e req w) = Inr True"
       "DbUpdateAppointments x r \<in> set (trace (snd (paystack_webhook e req (fresh w))))" for x r
    using that
    by (cases "payment_update_result e"; cases "appointment_update_result e")
       (auto simp: webhook_trace webhook_try_trace verify_trace webhook_try_fst
          split: if_splits)
  have b: "DbUpdatePayments (event_reference req) ''paid'' (payment_update_result e)
          \<in> set (trace (snd (part0_paystack_webhook e req (fresh w))))
        \<and> x = event_appointment_id req \<and> truthy x"
    if "DbUpdateAppointments x r \<in> set (trace (snd (part0_paystack_webhook e req (fresh w))))"
    for x r
    using that
    by (cases "payment_update_result e")
       (auto simp: part0_webhook_trace split: if_splits)
  have c: "event_type req = JStr ''charge.success'' \<and> truthy (event_appointment_id req)"
    if "appointments (db (snd (paystack_webhook e req w))) \<noteq> appointments (db w)"
    using that by (auto simp: webhook_appointments webhook_try_appointments split: if_splits)
  show ?thesis
    using a b c
    by (simp add: webhook_appt_result_fst webhook_appt_result_payments part0_webhook_fst
          part0_webhook_payments)
qed

theorem appointment_update_best_effort_witness:
  "fst (paystack_webhook (sample_env\<lparr>appointment_update_result := DbError ''down''\<rparr>)
      (sample_event ''charge.success'' ''success'') (sample_world ''initiated'')) = SendStatus 200
   \<and> map status (payments (db (snd (paystack_webhook
        (sample_env\<lparr>appointment_update_result := DbError ''down''\<rparr>)
        (sample_event ''charge.success'' ''success'') (sample_world ''initiated''))))) = [''paid'']
   \<and> map appt_status (appointments (db (snd (paystack_webhook
        (sample_env\<lparr>appointment_update_result := DbError ''down''\<rparr>)
        (sample_event ''charge.success'' ''success'') (sample_world ''initiated''))))) =
      [''pending'']"
  using appointment_update_best_effort
    [where e = sample_env and req = "sample_event ''charge.success'' ''success''"
       and w = "sample_world ''initiated''" and r' = "DbError ''down''"]
  by (simp add: sample_defs event_defs webhook_fst webhook_try_fst webhook_payments
        webhook_try_payments webhook_appointments webhook_try_appointments
        verifyPaystackSignature_def nullish_def set_status_def)

subsection \<open>C9: the signature verifier\<close>

text \<open>
  Claim C9: without a configured secret (the variable absent or empty) the verifier logs
  a warning and accepts; with a secret, and for a request that has a body, it returns
  true exactly when the signature header equals the hex HMAC-SHA512 of the serialised
  body under the secret, false otherwise, and logs nothing. For a request that has a
  body it never throws. The one exception it can raise is on a request without a body
  while a secret is set.
\<close>

theorem verifyPaystackSignature_correct:
  "(PAYSTACK_WEBHOOK_SECRET e = None \<or> PAYSTACK_WEBHOOK_SECRET e = Some [] \<longrightarrow>
      verifyPaystackSignature e req w =
        (Inr True, emit (ConsoleWarn
           ''Paystack webhook secret not configured, skipping signature verification'') w))
   \<and> (\<forall>k. PAYSTACK_WEBHOOK_SECRET e = Some k \<and> k \<noteq> [] \<and> body req \<noteq> Undefined \<longrightarrow>
        verifyPaystackSignature e req w =
          (Inr (map_of (headers req) ''x-paystack-signature'' =
                  Some (hmac_sha512_hex e k (JSON_stringify e (body req)))), w))
   \<and> (body req \<noteq> Undefined \<longrightarrow> (\<exists>verdict. fst (verifyPaystackSignature e req w) = Inr verdict))
   \<and> (\<forall>k. PAYSTACK_WEBHOOK_SECRET e = Some k \<and> k \<noteq> [] \<and> body req = Undefined \<longrightarrow>
        verifyPaystackSignature e req w = (Inl (JsError ''TypeError''), w))"
proof -
  have open_door: "verifyPaystackSignature e req w =
        (Inr True, emit (ConsoleWarn
           ''Paystack webhook secret not configured, skipping signature verification'') w)"
    if "PAYSTACK_WEBHOOK_SECRET e = None \<or> PAYSTACK_WEBHOOK_SECRET e = Some []"
    using that by (auto simp: verifyPaystackSignature_def)
  have checked: "verifyPaystackSignature e req w =
          (Inr (map_of (headers req) ''x-paystack-signature'' =
                  Some (hmac_sha512_hex e k (JSON_stringify e (body req)))), w)"
    if "PAYSTACK_WEBHOOK_SECRET e = Some k" "k \<noteq> []" "body req \<noteq> Undefined" for k
    using that by (simp add: verifyPaystackSignature_def)
  have thrown: "verifyPaystackSignature e req w = (Inl (JsError ''TypeError''), w)"
    if "PAYSTACK_WEBHOOK_SECRET e = Some k" "k \<noteq> []" "body req = Undefined" for k
    using that by (simp add: verifyPaystackSignature_def)
  have returns: "\<exists>verdict. fst (verifyPaystackSignature e req w) = Inr verdict"
    if "body req \<noteq> Undefined"
  proof (cases "PAYSTACK_WEBHOOK_SECRET e")
    case None
    then show ?thesis
      using open_door by auto
  next
    case (Some k)
    show ?thesis
    proof (cases "k = []")
      case True
      with Some show ?thesis
        using open_door by auto
    next
      case False
      with Some that show ?thesis
        using checked [of k] by auto
    qed
  qed
  show ?thesis
    using open_door checked thrown returns by blast
qed

theorem verifyPaystackSignature_correct_witness:
  "fst (verifyPaystackSignature (sample_env\<lparr>PAYSTACK_WEBHOOK_SECRET := Some ''whsec''\<rparr>)
     \<lparr>headers = [(''x-paystack-signature'', ''whsec{}'')], body = JObj []\<rparr>
     (sample_world ''paid'')) = Inr True
   \<and> fst (verifyPaystackSignature (sample_env\<lparr>PAYSTACK_WEBHOOK_SECRET := Some ''whsec''\<rparr>)
     \<lparr>headers = [(''x-paystack-signature'', ''forged'')], body = JObj []\<rparr>
     (sample_world ''paid'')) = Inr False
   \<and> fst (verifyPaystackSignature sample_env
     \<lparr>headers = [(''x-paystack-signature'', ''forged'')], body = JObj []\<rparr>
     (sample_world ''paid'')) = Inr True
   \<and> fst (verifyPaystackSignature (sample_env\<lparr>PAYSTACK_WEBHOOK_SECRET := Some ''whsec''\<rparr>)
     \<lparr>headers = [(''x-paystack-signature'', ''forged'')], body = Undefined\<rparr>
     (sample_world ''paid'')) = Inl (JsError ''TypeError'')"
  using verifyPaystackSignature_correct
          [where e = "sample_env\<lparr>PAYSTACK_WEBHOOK_SECRET := Some ''whsec''\<rparr>"
             and req = "\<lparr>headers = [(''x-paystack-signature'', ''whsec{}'')], body = JObj []\<rparr>"
             and w = "sample_world ''paid''"]
        verifyPaystackSignature_correct
          [where e = "sample_env\<lparr>PAYSTACK_WEBHOOK_SECRET := Some ''whsec''\<rparr>"
             and req = "\<lparr>headers = [(''x-paystack-signature'', ''forged'')], body = JObj []\<rparr>"
             and w = "sample_world ''paid''"]
        verifyPaystackSignature_correct
          [where e = sample_env
             and req = "\<lparr>headers = [(''x-paystack-signature'', ''forged'')], body = JObj []\<rparr>"
             and w = "sample_world ''paid''"]
        verifyPaystackSignature_correct
          [where e = "sample_env\<lparr>PAYSTACK_WEBHOOK_SECRET := Some ''whsec''\<rparr>"
             and req = "\<lparr>headers = [(''x-paystack-signature'', ''forged'')], body = Undefined\<rparr>"
             and w = "sample_world ''paid''"]
  by (simp add: sample_env_def)

subsection \<open>C10: what a delivery leaves alone\<close>

text \<open>
  Claim C10 says that a delivery writes only the \<open>status\<close> of the payment rows with
  the event's reference, and that a \<open>charge.failed\<close> event never writes to the
  appointments. The first part holds in both files, the second in the main file. In
  part\_000 a \<open>charge.failed\<close> event whose \<open>data.status\<close> is \<open>success\<close> is taken
  for a success and confirms the appointment; a \<open>charge.failed\<close> event with another
  \<open>data.status\<close> writes nothing to the appointments.
\<close>

theorem webhook_frame_condition:
  "list_all2 (frame (event_reference req)) (payments (db w))
     (payments (db (snd (paystack_webhook e req w))))
   \<and> list_all2 (frame (event_reference req)) (payments (db w))
     (payments (db (snd (part0_paystack_webhook e req w))))
   \<and> (event_type req = JStr ''charge.failed'' \<longrightarrow>
        appointments (db (snd (paystack_webhook e req w))) = appointments (db w)
        \<and> (\<forall>x r. DbUpdateAppointments x r
              \<notin> set (trace (snd (paystack_webhook e req (fresh w))))))
   \<and> (event_type req = JStr ''charge.failed''
        \<and> opt_prop (event_data req) ''status'' \<noteq> JStr ''success'' \<longrightarrow>
        appointments (db (snd (part0_paystack_webhook e req w))) = appointments (db w)
        \<and> (\<forall>x r. DbUpdateAppointments x r
              \<notin> set (trace (snd (part0_paystack_webhook e req (fresh w))))))"
proof -
  have a: "DbUpdateAppointments x r \<notin> set (trace (snd (paystack_webhook e req (fresh w))))"
    if "event_type req = JStr ''charge.failed''" for x r
    using that
    by (cases "payment_update_result e")
       (auto simp: webhook_trace webhook_try_trace verify_trace webhook_try_fst
          split: if_splits sum.splits)
  have b: "DbUpdateAppointments x r
      \<notin> set (trace (snd (part0_paystack_webhook e req (fresh w))))"
    if "event_type req = JStr ''charge.failed''"
       "opt_prop (event_data req) ''status'' \<noteq> JStr ''success''" for x r
    using that
    by (simp add: part0_webhook_trace part0_is_success_def event_defs)
  have c: "appointments (db (snd (part0_paystack_webhook e req w))) = appointments (db w)"
    if "event_type req = JStr ''charge.failed''"
       "opt_prop (event_data req) ''status'' \<noteq> JStr ''success''"
    using that
    by (simp add: part0_webhook_appointments part0_is_success_def event_defs)
  show ?thesis
    using a b c
    by (simp add: webhook_frame part0_webhook_frame webhook_appointments
          webhook_try_appointments)
qed

text \<open>
  part\_000 receives a \<open>charge.failed\<close> delivery whose \<open>data.status\<close> is
  \<open>success\<close>; the pending appointment \<open>A1\<close> becomes \<open>confirmed\<close>.
\<close>

theorem part0_charge_failed_confirms_appointment:
  "event_type (sample_event ''charge.failed'' ''success'') = JStr ''charge.failed''
   \<and> map appt_status (appointments (db (sample_world ''initiated''))) = [''pending'']
   \<and> map appt_status (appointments (db (snd (part0_paystack_webhook sample_env
        (sample_event ''charge.failed'' ''success'') (sample_world ''initiated''))))) =
      [''confirmed'']"
  by (simp add: sample_defs event_defs part0_webhook_appointments part0_is_success_def
        confirm_def)

theorem webhook_frame_condition_witness:
  "map appt_status (appointments (db (snd (paystack_webhook sample_env
        (sample_event ''charge.failed'' ''failed'') (sample_world ''initiated''))))) =
      [''pending'']
   \<and> map appt_status (appointments (db (snd (part0_paystack_webhook sample_env
        (sample_event ''charge.failed'' ''failed'') (sample_world ''initiated''))))) =
      [''pending'']
   \<and> list_all2 (frame (JStr ''ps_ref_X'')) (payments (db (sample_world ''initiated'')))
        (payments (db (snd (paystack_webhook sample_env
           (sample_event ''charge.failed'' ''failed'') (sample_world ''initiated'')))))"
  using webhook_frame_condition
    [where e = sample_env and req = "sample_event ''charge.failed'' ''failed''"
       and w = "sample_world ''initiated''"]
  by (simp add: sample_defs event_defs)

end
